theory Spec2Isabelle
  imports Complex_Main "HOL-Library.Sublist" "HOL-Library.Log_Nat"
begin

section \<open>Python values\<close>

text \<open>
  A Python \<open>str\<close> is a sequence of Unicode code points, modelled as a list of naturals:
  lengths, offsets and slices count code points, as \<open>len\<close>, \<open>match.start()\<close> and
  \<open>s[a:b]\<close> do. ASCII literals of the source are written with \<open>u\<close>; other characters
  are given by their code point (\<open>0xFC\<close> is u-umlaut, \<open>0x5D0\<close> is alef).
\<close>

type_synonym str = "nat list"

definition u :: "string \<Rightarrow> str" where
  "u s = map of_char s"

text \<open>\<open>p in s\<close> for two strings: \<open>p\<close> occurs in \<open>s\<close> as a contiguous substring.\<close>

fun enthaelt :: "str \<Rightarrow> str \<Rightarrow> bool" where
  "enthaelt p [] = (p = [])"
| "enthaelt p (x # xs) = (prefix p (x # xs) \<or> enthaelt p xs)"

text \<open>\<open>s[a:b]\<close> for non-negative \<open>a\<close> and \<open>b\<close>: out-of-range bounds are clamped.\<close>

definition scheibe :: "str \<Rightarrow> nat \<Rightarrow> nat \<Rightarrow> str" where
  "scheibe s a b = take (b - a) (drop a s)"

text \<open>\<open>sep.join(xs)\<close>.\<close>

fun join :: "str \<Rightarrow> str list \<Rightarrow> str" where
  "join sep [] = []"
| "join sep [x] = x"
| "join sep (x # y # ys) = x @ sep @ join sep (y # ys)"

text \<open>The exceptions the modelled code can raise.\<close>

datatype fehler = AttributeError | ZeroDivisionError | IndexError

text \<open>
  A Python \<open>float\<close> is an IEEE 754 binary64 number. A finite one is a rational, and the
  model keeps that rational: every float operation computes the exact result and rounds
  it to the nearest binary64 value, ties to the even significand. \<open>exponent x\<close> is the
  integer \<open>e\<close> with \<open>2^e \<le> |x| < 2^(e+1)\<close>; the spacing of the binary64 values around \<open>x\<close>
  is \<open>2^(e - 52)\<close>, and \<open>2^(-1074)\<close> below the normal range. Overflow to infinity does
  not occur for the numbers of this program (sums and means of scores) and is not
  modelled. A decimal literal such as \<open>0.3\<close> is \<open>runde (3 / 10)\<close>.
\<close>

definition exponent :: "rat \<Rightarrow> int" where
  "exponent x =
     (case quotient_of \<bar>x\<bar> of
        (p, q) \<Rightarrow> (let e = bitlen p - bitlen q in if 2 powi e \<le> \<bar>x\<bar> then e else e - 1))"

definition runde :: "rat \<Rightarrow> rat" where
  "runde x =
     (if x = 0 then 0
      else
        (let ulp = 2 powi (max (exponent x) (- 1022) - 52);
             m = x / ulp;
             f = \<lfloor>m\<rfloor>;
             r = m - of_int f
         in of_int (if r < 1 / 2 then f else if 1 / 2 < r then f + 1
                    else if even f then f else f + 1) * ulp))"

text \<open>\<open>float(n)\<close> for an integer, and \<open>a + b\<close>, \<open>a * b\<close>, \<open>a / b\<close> on floats.\<close>

definition float_of_nat :: "nat \<Rightarrow> rat" where
  "float_of_nat n = runde (of_nat n)"

definition fadd :: "rat \<Rightarrow> rat \<Rightarrow> rat" where
  "fadd a b = runde (a + b)"

definition fmul :: "rat \<Rightarrow> rat \<Rightarrow> rat" where
  "fmul a b = runde (a * b)"

definition fdiv :: "rat \<Rightarrow> rat \<Rightarrow> rat" where
  "fdiv a b = runde (a / b)"


section \<open>ez-chajim-wozu-system.py: data model\<close>

datatype FrageTyp = WOZU | WARUM | WIE | WAS | WER | WO | WANN

text \<open>
  \<open>Olam\<close> is imported from \<open>src.azilut_konverter\<close>, which is not among the sources. The
  code of this file refers to the member \<open>ASIJA\<close> only; the other three members are the
  worlds named next to it in the file (lines 31-34 and 427-430).
\<close>

datatype Olam = AZILUT | BERIJA | JEZIRA | ASIJA

datatype PardesLevel = PSCHAT | REMEZ | DRASCH | SOD

record WozuValidierung =
  ist_verankert :: bool
  azilut_score :: rat
  fehlende_wozu_aspekte :: "str list"
  empfohlene_korrekturen :: "str list"
  weltebene :: Olam

text \<open>
  The dataclass \<open>EchtzeitNachricht\<close> (lines 50-61). \<open>spiral_zeit\<close> is a dictionary
  produced by an external module, kept as an association list. The dataclass declares
  no field \<open>weltebene\<close>.
\<close>

record EchtzeitNachricht =
  inhalt :: str
  wozu :: str
  sender_modul :: str
  empfaenger_modul :: str
  frage_hierarchie :: "FrageTyp \<rightharpoonup> str"
  pardes_ebene :: "PardesLevel option"
  spiral_zeit :: "(str \<times> str) list option"
  validierung :: "WozuValidierung option"
  zeitstempel :: str


section \<open>WozuValidator\<close>

definition WOZU_INDIKATOREN :: "str list" where
  "WOZU_INDIKATOREN =
    [u ''um zu'', u ''damit'', u ''zwecks'', u ''zur'', u ''f'' @ [0xFC] @ u ''r die'',
     [0x5DC, 0x5DE, 0x5E2, 0x5DF], [0x5DB, 0x5D3, 0x5D9], [0x5DC, 0x5E9, 0x5DD],
     [0x5D1, 0x5E9, 0x5D1, 0x5D9, 0x5DC]]"

definition AZILUT_MARKER :: "str list" where
  "AZILUT_MARKER =
    [[0x5D0, 0x5D9, 0x5DF, 0x20, 0x5E1, 0x5D5, 0x5E3], u ''unendliches Licht'',
     u ''Emanation'', u ''h'' @ [0xF6] @ u ''chste Absicht'',
     u ''g'' @ [0xF6] @ u ''ttlicher Zweck'', u ''Tiqqun'']"

definition kein_wozu_definiert :: str where
  "kein_wozu_definiert = u ''Kein Wozu definiert!''"

definition definiere_klaren_zweck :: str where
  "definiere_klaren_zweck = u ''Definiere klaren Zweck/Absicht''"

definition wozu_frage_nicht_in_hierarchie :: str where
  "wozu_frage_nicht_in_hierarchie = u ''Wozu-Frage nicht in Hierarchie''"

definition keine_klaren_zweck_indikatoren :: str where
  "keine_klaren_zweck_indikatoren = u ''Keine klaren Zweck-Indikatoren''"

definition zu_stark_in_asija :: str where
  "zu_stark_in_asija = u ''Zu stark in Asija (Handlung) verhaftet''"

definition fuege_wozu_frage_hinzu :: str where
  "fuege_wozu_frage_hinzu =
     u ''F'' @ [0xFC] @ u ''ge prim'' @ [0xE4]
       @ u ''re Wozu-Frage hinzu: '' @ [0x27] @ u ''Wozu dient diese Kommunikation?''
       @ [0x27]"

definition verwende_zweck_formulierungen :: str where
  "verwende_zweck_formulierungen =
     u ''Verwende klare Zweck-Formulierungen: '' @ [0x27] @ u ''um zu...'' @ [0x27]
       @ u '', '' @ [0x27] @ u ''damit...'' @ [0x27]"

definition erhebe_perspektive :: str where
  "erhebe_perspektive = u ''Erhebe Perspektive: Von WAS (Asija) zu WOZU (Azilut)''"

definition verwende_wwaq_sprache :: str where
  "verwende_wwaq_sprache =
     u ''Verwende WWAQ-konforme Sprache: wandeln statt wandeln, bersten statt bersten''"

text \<open>
  \<open>_berechne_azilut_score\<close> (lines 103-125). \<open>lower\<close> is \<open>str.lower\<close>, whose Unicode
  case table is not part of the repository; it is a parameter. Each \<open>score += ...\<close>
  is one binding of the \<open>let\<close>, a float addition; \<open>wozu_count * 0.1\<close> and
  \<open>azilut_count * 0.15\<close> are float multiplications of the converted count.
\<close>

definition berechne_azilut_score :: "(str \<Rightarrow> str) \<Rightarrow> EchtzeitNachricht \<Rightarrow> rat" where
  "berechne_azilut_score lower nachricht =
    (let score0 = 0;
         score1 = (if wozu nachricht \<noteq> [] then fadd score0 (runde (3 / 10)) else score0);
         wozu_count = length (filter (\<lambda>ind. enthaelt ind (lower (wozu nachricht)))
                                WOZU_INDIKATOREN);
         score2 = fadd score1
                    (min (fmul (float_of_nat wozu_count) (runde (1 / 10))) (runde (2 / 10)));
         azilut_count = length (filter (\<lambda>marker. enthaelt marker (inhalt nachricht)
                                             \<or> enthaelt marker (wozu nachricht))
                                  AZILUT_MARKER);
         score3 = fadd score2
                    (min (fmul (float_of_nat azilut_count) (runde (15 / 100))) (runde (3 / 10)));
         score4 = (if frage_hierarchie nachricht WOZU \<noteq> None
                   then fadd score3 (runde (2 / 10)) else score3)
     in min score4 1)"

text \<open>
  \<open>_erkenne_weltebene\<close> (lines 127-130) delegates to \<open>AzilutKonverter.erkenne_weltebene\<close>
  of the absent module; the converter's function is the parameter \<open>erkenne\<close>.
\<close>

definition erkenne_weltebene :: "(str \<Rightarrow> Olam) \<Rightarrow> EchtzeitNachricht \<Rightarrow> Olam" where
  "erkenne_weltebene erkenne nachricht = erkenne (inhalt nachricht)"

text \<open>
  The attribute read \<open>nachricht.weltebene\<close> of line 142. \<open>EchtzeitNachricht\<close> has no
  such field (the field of that name belongs to \<open>WozuValidierung\<close>), so the read raises
  \<open>AttributeError\<close> on every instance the dataclass constructs.
\<close>

definition nachricht_weltebene :: "EchtzeitNachricht \<Rightarrow> fehler + Olam" where
  "nachricht_weltebene nachricht = Inl AttributeError"

text \<open>\<open>_finde_fehlende_aspekte\<close> (lines 132-145).\<close>

definition finde_fehlende_aspekte ::
  "(str \<Rightarrow> str) \<Rightarrow> EchtzeitNachricht \<Rightarrow> fehler + str list" where
  "finde_fehlende_aspekte lower nachricht =
    (let fehlend0 = [];
         fehlend1 = (if frage_hierarchie nachricht WOZU = None
                     then fehlend0 @ [wozu_frage_nicht_in_hierarchie] else fehlend0);
         fehlend2 = (if \<not> list_ex (\<lambda>ind. enthaelt ind (lower (wozu nachricht))) WOZU_INDIKATOREN
                     then fehlend1 @ [keine_klaren_zweck_indikatoren] else fehlend1)
     in case nachricht_weltebene nachricht of
          Inl e \<Rightarrow> Inl e
        | Inr w \<Rightarrow> Inr (if w = ASIJA then fehlend2 @ [zu_stark_in_asija] else fehlend2))"

text \<open>\<open>_generiere_korrekturen\<close> (lines 147-162): the loop, then the final append.\<close>

fun korrekturen_schleife :: "str list \<Rightarrow> str list \<Rightarrow> str list" where
  "korrekturen_schleife [] korrekturen = korrekturen"
| "korrekturen_schleife (fehler # fehlende) korrekturen =
     korrekturen_schleife fehlende
       (if enthaelt (u ''Wozu-Frage'') fehler then korrekturen @ [fuege_wozu_frage_hinzu]
        else if enthaelt (u ''Zweck-Indikatoren'') fehler
             then korrekturen @ [verwende_zweck_formulierungen]
        else if enthaelt (u ''Asija'') fehler then korrekturen @ [erhebe_perspektive]
        else korrekturen)"

definition generiere_korrekturen :: "str list \<Rightarrow> str list" where
  "generiere_korrekturen fehlende = korrekturen_schleife fehlende [] @ [verwende_wwaq_sprache]"

text \<open>\<open>validiere_wozu_zentrierung\<close> (lines 77-101).\<close>

definition validiere_wozu_zentrierung ::
  "(str \<Rightarrow> str) \<Rightarrow> (str \<Rightarrow> Olam) \<Rightarrow> EchtzeitNachricht \<Rightarrow> fehler + WozuValidierung" where
  "validiere_wozu_zentrierung lower erkenne nachricht =
    (if wozu nachricht = [] then
       Inr \<lparr>ist_verankert = False, azilut_score = 0,
            fehlende_wozu_aspekte = [kein_wozu_definiert],
            empfohlene_korrekturen = [definiere_klaren_zweck],
            weltebene = ASIJA\<rparr>
     else
       (let score = berechne_azilut_score lower nachricht;
            welt = erkenne_weltebene erkenne nachricht
        in case finde_fehlende_aspekte lower nachricht of
             Inl e \<Rightarrow> Inl e
           | Inr fehlende_aspekte \<Rightarrow>
               Inr \<lparr>ist_verankert = (runde (7 / 10) < score), azilut_score = score,
                    fehlende_wozu_aspekte = fehlende_aspekte,
                    empfohlene_korrekturen = generiere_korrekturen fehlende_aspekte,
                    weltebene = welt\<rparr>))"


section \<open>glossar_manager.py\<close>

text \<open>
  \<open>str.replace(old, new)\<close>: every non-overlapping occurrence of \<open>old\<close>, found from
  the left, is replaced; an empty \<open>old\<close> puts \<open>new\<close> before every character and at
  the end.
\<close>

function ersetze_alle :: "str \<Rightarrow> str \<Rightarrow> str \<Rightarrow> str" where
  "ersetze_alle old new [] = []"
| "ersetze_alle old new (c # cs) =
     (if old \<noteq> [] \<and> prefix old (c # cs)
      then new @ ersetze_alle old new (drop (length old) (c # cs))
      else c # ersetze_alle old new cs)"
  by pat_completeness auto
termination
  by (relation "measure (\<lambda>(old, new, s). length s)") auto

definition replace :: "str \<Rightarrow> str \<Rightarrow> str \<Rightarrow> str" where
  "replace old new s =
     (if old = [] then new @ concat (map (\<lambda>c. c # new) s) else ersetze_alle old new s)"

text \<open>
  \<open>GlossarManager.transform\<close> (lines 9-15). The two tables come from a YAML file that
  is not part of the sources; they are parameters, in the file's key order.
\<close>

fun ersetze_tabelle :: "(str \<times> str) list \<Rightarrow> str \<Rightarrow> str" where
  "ersetze_tabelle [] text = text"
| "ersetze_tabelle ((old, new) # tabelle) text = ersetze_tabelle tabelle (replace old new text)"

definition transform :: "(str \<times> str) list \<Rightarrow> (str \<times> str) list \<Rightarrow> str \<Rightarrow> str" where
  "transform K_zu_Q Zer_Elimination text = ersetze_tabelle Zer_Elimination (ersetze_tabelle K_zu_Q text)"


section \<open>EchtzeitKommunikator\<close>

text \<open>
  What the communicator gets from outside the sources: \<open>str.lower\<close>, the world
  detection of \<open>AzilutKonverter\<close>, the two glossary tables, the value of
  \<open>HNS10SpiralTime.current_spiral_time()\<close>, and \<open>PardesAnalyzer.analyze_text\<close> reduced
  to the \<open>interpretation\<close> string it returns for each of the four levels.
\<close>

record Umgebung =
  str_lower :: "str \<Rightarrow> str"
  konverter_erkenne_weltebene :: "str \<Rightarrow> Olam"
  glossar_K_zu_Q :: "(str \<times> str) list"
  glossar_Zer_Elimination :: "(str \<times> str) list"
  current_spiral_time :: "(str \<times> str) list"
  analyze_text :: "str \<Rightarrow> PardesLevel \<Rightarrow> str"

text \<open>
  A printed or reported line is a sequence of segments: literal text, an integer, and a
  float formatted with \<open>:.1f\<close> or \<open>:.2f\<close> (the number is kept, its rounding to decimal
  digits is not modelled).
\<close>

datatype segment = Text str | Zahl nat | Fest1 rat | Fest2 rat

text \<open>The mutable state: the shared \<open>asyncio.Queue\<close> (unbounded, FIFO) and standard output.\<close>

record Kommunikator =
  nachrichten_queue :: "EchtzeitNachricht list"
  stdout :: "segment list list"

definition print :: "segment list \<Rightarrow> Kommunikator \<Rightarrow> Kommunikator" where
  "print zeile komm = komm\<lparr>stdout := stdout komm @ [zeile]\<rparr>"

definition put :: "EchtzeitNachricht \<Rightarrow> Kommunikator \<Rightarrow> Kommunikator" where
  "put nachricht komm = komm\<lparr>nachrichten_queue := nachrichten_queue komm @ [nachricht]\<rparr>"

definition pardes_value :: "PardesLevel \<Rightarrow> str" where
  "pardes_value ebene =
     (case ebene of PSCHAT \<Rightarrow> [0x5E4, 0x5E9, 0x5D8] | REMEZ \<Rightarrow> [0x5E8, 0x5DE, 0x5D6]
      | DRASCH \<Rightarrow> [0x5D3, 0x5E8, 0x5E9] | SOD \<Rightarrow> [0x5E1, 0x5D5, 0x5D3])"

text \<open>The loop of lines 204-208: the first level whose interpretation is not the sentinel.\<close>

fun waehle_ebene :: "(PardesLevel \<Rightarrow> str) \<Rightarrow> PardesLevel list \<Rightarrow> PardesLevel option" where
  "waehle_ebene pardes_analyse [] = None"
| "waehle_ebene pardes_analyse (ebene # ebenen) =
     (if pardes_analyse ebene \<noteq> u ''Die Geheimnisse bleiben verborgen'' then Some ebene
      else waehle_ebene pardes_analyse ebenen)"

text \<open>The message after step 0 of \<open>sende_nachricht\<close> (lines 181-182).\<close>

definition wwaq_konform :: "Umgebung \<Rightarrow> EchtzeitNachricht \<Rightarrow> EchtzeitNachricht" where
  "wwaq_konform env nachricht =
     (let n1 = nachricht\<lparr>inhalt :=
                 transform (glossar_K_zu_Q env) (glossar_Zer_Elimination env) (inhalt nachricht)\<rparr>
      in n1\<lparr>wozu := transform (glossar_K_zu_Q env) (glossar_Zer_Elimination env) (wozu n1)\<rparr>)"

text \<open>
  \<open>sende_nachricht\<close> (lines 177-218). The result is the returned bool or the exception
  raised, the message as the call leaves it, and the state. The subscript
  \<open>empfohlene_korrekturen[0]\<close> raises \<open>IndexError\<close> on an empty list, after the first
  three lines of the warning are printed.
\<close>

definition sende_nachricht ::
  "Umgebung \<Rightarrow> EchtzeitNachricht \<Rightarrow> Kommunikator
     \<Rightarrow> (fehler + bool) \<times> EchtzeitNachricht \<times> Kommunikator" where
  "sende_nachricht env nachricht komm =
    (let n2 = wwaq_konform env nachricht in
     case validiere_wozu_zentrierung (str_lower env) (konverter_erkenne_weltebene env) n2 of
       Inl e \<Rightarrow> (Inl e, n2, komm)
     | Inr val \<Rightarrow>
        (let n3 = n2\<lparr>validierung := Some val\<rparr> in
         if \<not> ist_verankert val then
           (let k1 = print [Text ([0x26A0, 0xFE0F] @ u '' WARNUNG: Nachricht nicht Azilut-verankert!'')] komm;
                k2 = print [Text (u ''   Azilut-Score: ''), Fest2 (azilut_score val)] k1;
                k3 = print [Text (u ''   Fehlend: ''),
                            Text (join (u '', '') (fehlende_wozu_aspekte val))] k2
            in case empfohlene_korrekturen val of
                 [] \<Rightarrow> (Inl IndexError, n3, k3)
               | korrektur # _ \<Rightarrow>
                   (Inr False, n3, print [Text (u ''   Empfehlung: ''), Text korrektur] k3))
         else
           (let n4 = n3\<lparr>spiral_zeit := Some (current_spiral_time env)\<rparr>;
                n5 = (if pardes_ebene n4 = None
                      then n4\<lparr>pardes_ebene :=
                              waehle_ebene (analyze_text env (inhalt n4)) [SOD, DRASCH, REMEZ, PSCHAT]\<rparr>
                      else n4);
                k1 = put n5 komm;
                k2 = print [Text ([0x2713] @ u '' Nachricht gesendet: ''), Text (sender_modul n5),
                            Text (u '' '' @ [0x2192] @ u '' ''), Text (empfaenger_modul n5)] k1;
                k3 = print [Text (u ''  Wozu: ''), Text (wozu n5)] k2;
                k4 = print [Text (u ''  Azilut-Score: ''), Fest2 (azilut_score val)] k3;
                k5 = print [Text (u ''  Pardes-Ebene: ''),
                            Text (case pardes_ebene n5 of None \<Rightarrow> u ''N/A''
                                  | Some ebene \<Rightarrow> pardes_value ebene)] k4
            in (Inr True, n5, k5))))"

text \<open>
  \<open>empfange_nachrichten\<close> (lines 220-226), one step of the generator: it takes items from
  the shared queue until one is addressed to \<open>modul_name\<close> and yields that one; every item
  taken before it is dropped. With the queue exhausted the \<open>get\<close> suspends: the step
  yields nothing (\<open>None\<close>) and the queue is left empty.
\<close>

fun empfange_naechste ::
  "str \<Rightarrow> EchtzeitNachricht list \<Rightarrow> EchtzeitNachricht option \<times> EchtzeitNachricht list" where
  "empfange_naechste modul_name [] = (None, [])"
| "empfange_naechste modul_name (nachricht # queue) =
     (if empfaenger_modul nachricht = modul_name then (Some nachricht, queue)
      else empfange_naechste modul_name queue)"

text \<open>
  A consumer that iterates the generator until it suspends: the messages it received, in
  the order received, and the queue it leaves behind.
\<close>

function empfange_nachrichten ::
  "str \<Rightarrow> EchtzeitNachricht list \<Rightarrow> EchtzeitNachricht list \<times> EchtzeitNachricht list" where
  "empfange_nachrichten modul_name queue =
     (case empfange_naechste modul_name queue of
        (None, rest) \<Rightarrow> ([], rest)
      | (Some nachricht, rest) \<Rightarrow>
          (case empfange_nachrichten modul_name rest of
             (empfangen, rest') \<Rightarrow> (nachricht # empfangen, rest')))"
  by pat_completeness auto
termination
proof (relation "measure (\<lambda>(modul_name, queue). length queue)", goal_cases)
  case 1
  show ?case by simp
next
  case (2 modul_name queue x1 x2 nachricht)
  have kuerzer: "length rest < length q"
    if "empfange_naechste m q = (Some n, rest)" for m q n rest
    using that by (induction q) (auto split: if_splits)
  from 2 have "empfange_naechste modul_name queue = (Some nachricht, x2)"
    by (simp add: eq_commute)
  from kuerzer [OF this] show ?case
    by simp
qed

text \<open>
  \<open>generiere_wozu_bericht\<close> (lines 250-300). The report is the list of its lines before
  the final join; \<open>jetzt\<close> is the text of \<open>datetime.now().isoformat()\<close>. Dictionaries
  that are iterated are association lists in insertion order. \<open>sum\<close> adds the scores
  from the left, starting at the integer 0; the quotient of two integers is the
  correctly rounded float.
\<close>

definition olam_name :: "Olam \<Rightarrow> str" where
  "olam_name welt =
     (case welt of AZILUT \<Rightarrow> u ''AZILUT'' | BERIJA \<Rightarrow> u ''BERIJA''
      | JEZIRA \<Rightarrow> u ''JEZIRA'' | ASIJA \<Rightarrow> u ''ASIJA'')"

text \<open>\<open>d[k] = d.get(k, 0) + 1\<close>, which is also how \<open>Counter\<close> counts.\<close>

fun zaehle :: "'a \<Rightarrow> ('a \<times> nat) list \<Rightarrow> ('a \<times> nat) list" where
  "zaehle k [] = [(k, 1)]"
| "zaehle k ((k', n) # d) = (if k' = k then (k', n + 1) # d else (k', n) # zaehle k d)"

text \<open>
  \<open>sorted(items, key=count, reverse=True)\<close>: stable, so items of equal count keep their
  order. \<open>Counter.most_common(5)\<close> is the first five of the same order.
\<close>

fun sortiert_einfuegen :: "('a \<times> nat) \<Rightarrow> ('a \<times> nat) list \<Rightarrow> ('a \<times> nat) list" where
  "sortiert_einfuegen x [] = [x]"
| "sortiert_einfuegen x (y # ys) =
     (if snd x \<le> snd y then y # sortiert_einfuegen x ys else x # y # ys)"

definition absteigend_sortiert :: "('a \<times> nat) list \<Rightarrow> ('a \<times> nat) list" where
  "absteigend_sortiert items = foldl (\<lambda>acc x. sortiert_einfuegen x acc) [] items"

definition generiere_wozu_bericht ::
  "str \<Rightarrow> EchtzeitNachricht list \<Rightarrow> fehler + segment list list" where
  "generiere_wozu_bericht jetzt nachrichten =
    (let bericht0 = [[Text (u ''=== WOZU-ZENTRIERUNGS-BERICHT ==='')],
                     [Text (u ''Zeitpunkt: ''), Text jetzt],
                     [Text (u ''Anzahl Nachrichten: ''), Zahl (length nachrichten)],
                     []];
         verankert = length (filter (\<lambda>n. case validierung n of None \<Rightarrow> False
                                            | Some v \<Rightarrow> ist_verankert v) nachrichten);
         summe = foldl fadd 0 (concat (map (\<lambda>n. case validierung n of None \<Rightarrow> []
                                                  | Some v \<Rightarrow> [azilut_score v]) nachrichten))
     in if length nachrichten = 0 then Inl ZeroDivisionError
        else
         (let durchschnitt_score = fdiv summe (float_of_nat (length nachrichten));
              bericht1 = bericht0 @
                [[Text (u ''Azilut-verankert: ''), Zahl verankert, Text (u ''/''),
                  Zahl (length nachrichten), Text (u '' (''),
                  Fest1 (fmul (fdiv (of_nat verankert) (of_nat (length nachrichten))) 100),
                  Text (u ''%)'')],
                 [Text (u ''Durchschnittlicher Azilut-Score: ''), Fest2 durchschnitt_score],
                 [],
                 [Text (u ''--- WELTEBENEN-VERTEILUNG ---'')]];
              weltebenen_count =
                foldl (\<lambda>d n. case validierung n of None \<Rightarrow> d
                               | Some v \<Rightarrow> zaehle (olam_name (weltebene v)) d) [] nachrichten;
              bericht2 = bericht1 @
                map (\<lambda>(ebene, count). [Text ebene, Text (u '': ''), Zahl count,
                                        Text (u '' Nachrichten'')])
                    (absteigend_sortiert weltebenen_count);
              bericht3 = bericht2 @ [[], [Text (u ''--- EMPFEHLUNGEN ---'')]];
              alle_empfehlungen =
                concat (map (\<lambda>n. case validierung n of None \<Rightarrow> []
                                   | Some v \<Rightarrow> if \<not> ist_verankert v
                                              then empfohlene_korrekturen v else []) nachrichten);
              empf_counter = foldl (\<lambda>d e. zaehle e d) [] alle_empfehlungen;
              bericht4 = bericht3 @
                map (\<lambda>(empf, count). [Text ([0x2022] @ u '' ''), Text empf, Text (u '' (''),
                                       Zahl count, Text (u ''x)'')])
                    (take 5 (absteigend_sortiert empf_counter))
          in Inr (bericht4 @ [[Text ([0x0A] @ u ''Q!'')]])))"


section \<open>parser/wwaq_parser.py\<close>

datatype Kategorie = k_zu_q | zer_elimination | din_31636

text \<open>
  \<open>_initialisiere_transformationen\<close> (lines 44-107). Every pattern of the table has the
  form \<open>\bWORT\b\<close> with a non-empty literal \<open>WORT\<close>; an entry \<open>(wort, ersatz)\<close> stands for
  the pattern \<open>\bwort\b\<close> and its replacement, which contains no backslash. The lists
  keep the order of the dictionary literals, which is the order \<open>items()\<close> yields.
\<close>

definition regeln_k_zu_q :: "(str \<times> str) list" where
  "regeln_k_zu_q =
    [(u ''WWAK'', u ''WWAQ''),
     (u ''Kabbala'', u ''Qabbala''),
     (u ''Kabbalah'', u ''Qabbala''),
     (u ''kabbalistisch'', u ''qabbalistisch''),
     (u ''Kabbalist'', u ''Qabbalist''),
     (u ''Kabbalisten'', u ''Qabbalisten''),
     (u ''Kawana'', u ''Qawana''),
     (u ''Kavanah'', u ''Qawana''),
     (u ''Kavana'', u ''Qawana'')]"

definition regeln_zer_elimination :: "(str \<times> str) list" where
  "regeln_zer_elimination =
    [(u ''zerbrechen'', u ''bersten''),
     (u ''zerbrach'', u ''barst''),
     (u ''zerbrachen'', u ''barsten''),
     (u ''zerbricht'', u ''berstet''),
     (u ''zerbrochen'', u ''geborsten''),
     (u ''Zerbrechen'', u ''Bersten''),
     (u ''Zerbruch'', u ''Bersten''),
     (u ''zerst'' @ [0xF6] @ u ''ren'', u ''wandeln''),
     (u ''zerst'' @ [0xF6] @ u ''rt'', u ''gewandelt''),
     (u ''zerst'' @ [0xF6] @ u ''rte'', u ''wandelte''),
     (u ''zerst'' @ [0xF6] @ u ''rten'', u ''wandelten''),
     (u ''zerst'' @ [0xF6] @ u ''rend'', u ''wandelnd''),
     (u ''Zerst'' @ [0xF6] @ u ''rung'', u ''Wandlung''),
     (u ''zerrei'' @ [0xDF] @ u ''en'', [0xF6] @ u ''ffnen''),
     (u ''zerriss'', [0xF6] @ u ''ffnete''),
     (u ''zerrissen'', u ''ge'' @ [0xF6] @ u ''ffnet''),
     (u ''zerrei'' @ [0xDF] @ u ''t'', [0xF6] @ u ''ffnet''),
     (u ''zerfallen'', u ''sich wandeln''),
     (u ''zerf'' @ [0xE4] @ u ''llt'', u ''wandelt sich''),
     (u ''zerfiel'', u ''wandelte sich''),
     (u ''zerfielen'', u ''wandelten sich''),
     (u ''zerschlagen'', [0xF6] @ u ''ffnen''),
     (u ''zerschlug'', [0xF6] @ u ''ffnete''),
     (u ''zerschl'' @ [0xE4] @ u ''gt'', [0xF6] @ u ''ffnet''),
     (u ''verschwinden'', u ''schwinden''),
     (u ''verschwand'', u ''schwand''),
     (u ''verschwunden'', u ''geschwunden'')]"

definition regeln_din_31636 :: "(str \<times> str) list" where
  "regeln_din_31636 =
    [(u ''Tzimtzum'', u ''Zimzum''),
     (u ''Tzimzum'', u ''Zimzum''),
     (u ''Dvekut'', u ''Dwekut''),
     (u ''Devekut'', u ''Dwekut''),
     (u ''Tikkun'', u ''Tiqqun''),
     (u ''Tikun'', u ''Tiqqun''),
     (u ''Atzilut'', u ''Azilut''),
     (u ''Atziluth'', u ''Azilut'')]"

definition transformationen :: "(Kategorie \<times> (str \<times> str) list) list" where
  "transformationen =
    [(k_zu_q, regeln_k_zu_q), (zer_elimination, regeln_zer_elimination),
     (din_31636, regeln_din_31636)]"

text \<open>
  The regular-expression engine. \<open>w\<close> is the class \<open>\w\<close> of a \<open>str\<close> pattern (Unicode
  alphanumerics and the underscore), a table of the \<open>re\<close> module and a parameter here.
  \<open>\b\<close> holds at offset \<open>p\<close> when exactly one of the characters before and after \<open>p\<close> is
  a word character, the outside of the text counting as none.
\<close>

definition wortgrenze :: "(nat \<Rightarrow> bool) \<Rightarrow> str \<Rightarrow> nat \<Rightarrow> bool" where
  "wortgrenze w t p =
     ((0 < p \<and> p \<le> length t \<and> w (t ! (p - 1))) \<noteq> (p < length t \<and> w (t ! p)))"

definition passt :: "(nat \<Rightarrow> bool) \<Rightarrow> str \<Rightarrow> str \<Rightarrow> nat \<Rightarrow> bool" where
  "passt w wort t i =
     (wortgrenze w t i \<and> scheibe t i (i + length wort) = wort
      \<and> wortgrenze w t (i + length wort))"

text \<open>
  \<open>re.finditer\<close> for \<open>\bwort\b\<close>: the spans \<open>(start, end)\<close> of the non-overlapping matches,
  searched from the left; after a match the search goes on at its end.
\<close>

function finditer_ab :: "(nat \<Rightarrow> bool) \<Rightarrow> str \<Rightarrow> str \<Rightarrow> nat \<Rightarrow> (nat \<times> nat) list" where
  "finditer_ab w wort t i =
     (if length t < i + length wort then []
      else if passt w wort t i
           then (i, i + length wort) # finditer_ab w wort t (i + max 1 (length wort))
      else finditer_ab w wort t (Suc i))"
  by pat_completeness auto
termination
  by (relation "measure (\<lambda>(w, wort, t, i). Suc (length t) - i)") auto

definition finditer :: "(nat \<Rightarrow> bool) \<Rightarrow> str \<Rightarrow> str \<Rightarrow> (nat \<times> nat) list" where
  "finditer w wort t = finditer_ab w wort t 0"

text \<open>\<open>re.sub\<close>: the text between the matches is kept, each match becomes \<open>ersatz\<close>.\<close>

fun sub_ab :: "str \<Rightarrow> (nat \<times> nat) list \<Rightarrow> str \<Rightarrow> nat \<Rightarrow> str" where
  "sub_ab ersatz [] t i = drop i t"
| "sub_ab ersatz ((s, e) # matches) t i = scheibe t i s @ ersatz @ sub_ab ersatz matches t e"

definition re_sub :: "(nat \<Rightarrow> bool) \<Rightarrow> str \<Rightarrow> str \<Rightarrow> str \<Rightarrow> str" where
  "re_sub w wort ersatz t = sub_ab ersatz (finditer w wort t) t 0"

text \<open>One entry of \<open>aenderungen\<close> (lines 137-144); the timestamp is left out.\<close>

record Aenderung =
  kategorie :: Kategorie
  original :: str
  ersatz :: str
  position :: nat
  kontext :: str

record Statistik =
  anzahl_transformationen :: nat
  anzahl_begriffe :: nat

text \<open>
  \<open>transformiere\<close> (lines 109-150): the inner loop over the rules of one category, the
  outer loop over the categories. The matches are found in the text before the rule's
  substitution; \<open>kontext\<close> is sliced from the text after it.
\<close>

fun regeln_schleife ::
  "(nat \<Rightarrow> bool) \<Rightarrow> Kategorie \<Rightarrow> (str \<times> str) list \<Rightarrow> str \<times> Aenderung list
     \<Rightarrow> str \<times> Aenderung list" where
  "regeln_schleife w kat [] (transformiert, aenderungen) = (transformiert, aenderungen)"
| "regeln_schleife w kat ((muster, ers) # regeln) (transformiert, aenderungen) =
     (let matches = finditer w muster transformiert in
      if matches \<noteq> [] then
        (let transformiert' = re_sub w muster ers transformiert in
         regeln_schleife w kat regeln
           (transformiert',
            aenderungen @
              map (\<lambda>(s, e). \<lparr>kategorie = kat, original = scheibe transformiert s e,
                              ersatz = ers, position = s,
                              kontext = scheibe transformiert' (s - 20) (e + 20)\<rparr>) matches))
      else regeln_schleife w kat regeln (transformiert, aenderungen))"

fun kategorien_schleife ::
  "(nat \<Rightarrow> bool) \<Rightarrow> (Kategorie \<times> (str \<times> str) list) list \<Rightarrow> str \<times> Aenderung list
     \<Rightarrow> str \<times> Aenderung list" where
  "kategorien_schleife w [] zustand = zustand"
| "kategorien_schleife w ((kat, regeln) # kategorien) zustand =
     kategorien_schleife w kategorien (regeln_schleife w kat regeln zustand)"

definition transformiere ::
  "(nat \<Rightarrow> bool) \<Rightarrow> Statistik \<Rightarrow> str \<Rightarrow> (str \<times> Aenderung list) \<times> Statistik" where
  "transformiere w statistik text =
     (if text = [] then (([], []), statistik)
      else
        (case kategorien_schleife w transformationen (text, []) of
           (transformiert, aenderungen) \<Rightarrow>
             ((transformiert, aenderungen),
              statistik\<lparr>anzahl_transformationen := anzahl_transformationen statistik + 1,
                        anzahl_begriffe := anzahl_begriffe statistik + length aenderungen\<rparr>)))"


section \<open>Inputs for evaluation\<close>

text \<open>
  \<open>\w\<close> and \<open>str.lower\<close> on the code points below \<open>0x100\<close> (Basic Latin and Latin-1),
  for evaluating the functions on texts of these blocks.
\<close>

definition wortzeichen_latin1 :: "nat \<Rightarrow> bool" where
  "wortzeichen_latin1 c =
     ((0x30 \<le> c \<and> c \<le> 0x39) \<or> (0x41 \<le> c \<and> c \<le> 0x5A) \<or> c = 0x5F
      \<or> (0x61 \<le> c \<and> c \<le> 0x7A) \<or> c = 0xAA \<or> c = 0xB2 \<or> c = 0xB3 \<or> c = 0xB5
      \<or> c = 0xB9 \<or> c = 0xBA \<or> (0xBC \<le> c \<and> c \<le> 0xBE) \<or> (0xC0 \<le> c \<and> c \<le> 0xD6)
      \<or> (0xD8 \<le> c \<and> c \<le> 0xF6) \<or> (0xF8 \<le> c \<and> c \<le> 0xFF))"

definition lower_latin1 :: "str \<Rightarrow> str" where
  "lower_latin1 s =
     map (\<lambda>c. if (0x41 \<le> c \<and> c \<le> 0x5A) \<or> (0xC0 \<le> c \<and> c \<le> 0xDE \<and> c \<noteq> 0xD7)
               then c + 0x20 else c) s"

definition beispiel_umgebung :: Umgebung where
  "beispiel_umgebung =
     \<lparr>str_lower = lower_latin1,
      konverter_erkenne_weltebene = (\<lambda>text. JEZIRA),
      glossar_K_zu_Q = [(u ''Kabbala'', u ''Qabbala'')],
      glossar_Zer_Elimination = [(u ''zerbrechen'', u ''bersten'')],
      current_spiral_time = [],
      analyze_text = (\<lambda>text ebene. u ''Die Geheimnisse bleiben verborgen'')\<rparr>"

text \<open>The message of the file's own second test (lines 389-398): no purpose.\<close>

definition schlechte_nachricht :: EchtzeitNachricht where
  "schlechte_nachricht =
     \<lparr>inhalt = u ''Verarbeite diesen Text'', wozu = [],
      sender_modul = u ''bad-sender'', empfaenger_modul = u ''bad-empf'' @ [0xE4] @ u ''nger'',
      frage_hierarchie = [WAS \<mapsto> u ''Text'', WIE \<mapsto> u ''Schnell''],
      pardes_ebene = None, spiral_zeit = None, validierung = None,
      zeitstempel = u ''2025-07-06T12:00:00''\<rparr>"

text \<open>
  A message as \<open>erstelle_wozu_zentrierte_nachricht\<close> builds it: a purpose with an
  indicator phrase, two markers in the content, \<open>WOZU\<close> in the hierarchy.
\<close>

definition gute_nachricht :: EchtzeitNachricht where
  "gute_nachricht =
     \<lparr>inhalt = u ''Emanation und Tiqqun'', wozu = u ''um zu lernen'',
      sender_modul = u ''test-sender'', empfaenger_modul = u ''test-empf'' @ [0xE4] @ u ''nger'',
      frage_hierarchie = [WOZU \<mapsto> u ''um zu lernen''],
      pardes_ebene = None, spiral_zeit = None, validierung = None,
      zeitstempel = u ''2025-07-06T12:00:00''\<rparr>"

text \<open>
  A message with two indicator phrases in the purpose ("um zu", "damit"), no marker, and
  \<open>WOZU\<close> in the hierarchy.
\<close>

definition grenz_nachricht :: EchtzeitNachricht where
  "grenz_nachricht =
     \<lparr>inhalt = u ''Text der Studie'', wozu = u ''um zu lernen, damit es gelingt'',
      sender_modul = u ''test-sender'', empfaenger_modul = u ''test-empf'' @ [0xE4] @ u ''nger'',
      frage_hierarchie = [WOZU \<mapsto> u ''um zu lernen, damit es gelingt''],
      pardes_ebene = None, spiral_zeit = None, validierung = None,
      zeitstempel = u ''2025-07-06T12:00:00''\<rparr>"

definition leerer_kommunikator :: Kommunikator where
  "leerer_kommunikator = \<lparr>nachrichten_queue = [], stdout = []\<rparr>"

text \<open>The statistics of a new parser (line 27) and a text with two occurrences of a rule.\<close>

definition neue_statistik :: Statistik where
  "neue_statistik = \<lparr>anzahl_transformationen = 0, anzahl_begriffe = 0\<rparr>"

definition beispiel_text :: str where
  "beispiel_text = u ''Kabbalah und Kabbalah sind in der Lehre ein Begriff''"

text \<open>
  For stating where a change was recorded: all rules in the order the two loops visit
  them, and the text after a list of rules has been applied to it one after the other.
\<close>

definition flach :: "(Kategorie \<times> (str \<times> str) list) list \<Rightarrow> (Kategorie \<times> str \<times> str) list" where
  "flach kategorien =
     concat (map (\<lambda>(kat, regeln). map (\<lambda>(muster, ers). (kat, muster, ers)) regeln) kategorien)"

fun zwischentext :: "(nat \<Rightarrow> bool) \<Rightarrow> (Kategorie \<times> str \<times> str) list \<Rightarrow> str \<Rightarrow> str" where
  "zwischentext w [] text = text"
| "zwischentext w ((kat, muster, ers) # regeln) text =
     zwischentext w regeln (re_sub w muster ers text)"

definition belegt ::
  "(nat \<Rightarrow> bool) \<Rightarrow> (Kategorie \<times> str \<times> str) list \<Rightarrow> str \<Rightarrow> Aenderung \<Rightarrow> bool" where
  "belegt w alle text r =
     (\<exists>vor nach. alle = vor @ (kategorie r, original r, ersatz r) # nach
        \<and> (position r, position r + length (original r))
             \<in> set (finditer w (original r) (zwischentext w vor text))
        \<and> scheibe (zwischentext w vor text) (position r) (position r + length (original r))
             = original r
        \<and> kontext r =
            scheibe (re_sub w (original r) (ersatz r) (zwischentext w vor text))
              (position r - 20) (position r + length (original r) + 20))"

text \<open>Two messages for two different recipients.\<close>

definition nachricht_an_a :: EchtzeitNachricht where
  "nachricht_an_a = gute_nachricht\<lparr>empfaenger_modul := u ''modul-a''\<rparr>"

definition nachricht_an_b :: EchtzeitNachricht where
  "nachricht_an_b = gute_nachricht\<lparr>empfaenger_modul := u ''modul-b''\<rparr>"

declare finditer_ab.simps [simp del]
declare ersetze_alle.simps [simp del]
declare empfange_nachrichten.simps [simp del]


section \<open>The validator: auxiliary facts\<close>

lemma finde_fehlende_aspekte_raises:
  "finde_fehlende_aspekte lower n = Inl AttributeError"
  by (simp add: finde_fehlende_aspekte_def nachricht_weltebene_def Let_def)

lemma validiere_ohne_wozu:
  "wozu n = [] \<Longrightarrow> validiere_wozu_zentrierung lower erkenne n =
     Inr \<lparr>ist_verankert = False, azilut_score = 0,
          fehlende_wozu_aspekte = [kein_wozu_definiert],
          empfohlene_korrekturen = [definiere_klaren_zweck], weltebene = ASIJA\<rparr>"
  by (simp add: validiere_wozu_zentrierung_def)

lemma validiere_mit_wozu:
  "wozu n \<noteq> [] \<Longrightarrow> validiere_wozu_zentrierung lower erkenne n =
     (case finde_fehlende_aspekte lower n of
        Inl e \<Rightarrow> Inl e
      | Inr fehlende \<Rightarrow>
          Inr \<lparr>ist_verankert = (runde (7 / 10) < berechne_azilut_score lower n),
               azilut_score = berechne_azilut_score lower n,
               fehlende_wozu_aspekte = fehlende,
               empfohlene_korrekturen = generiere_korrekturen fehlende,
               weltebene = erkenne (inhalt n)\<rparr>)"
  by (simp add: validiere_wozu_zentrierung_def erkenne_weltebene_def Let_def)

lemma validiere_mit_wozu_raises:
  "wozu n \<noteq> [] \<Longrightarrow> validiere_wozu_zentrierung lower erkenne n = Inl AttributeError"
  by (simp add: validiere_mit_wozu finde_fehlende_aspekte_raises)

lemma generiere_korrekturen_last:
  "last (generiere_korrekturen fehlende) = verwende_wwaq_sprache"
  by (simp add: generiere_korrekturen_def)

lemma generiere_korrekturen_nonempty: "generiere_korrekturen fehlende \<noteq> []"
  by (simp add: generiere_korrekturen_def)

lemma validiere_korrekturen_nonempty:
  "validiere_wozu_zentrierung lower erkenne n = Inr v \<Longrightarrow> empfohlene_korrekturen v \<noteq> []"
  by (auto simp: validiere_wozu_zentrierung_def Let_def generiere_korrekturen_nonempty
      split: if_splits sum.splits)

text \<open>The two example messages, evaluated.\<close>

lemma wozu_schlechte_nachricht: "wozu schlechte_nachricht = []"
  by (simp add: schlechte_nachricht_def)

lemma wozu_gute_nachricht: "wozu gute_nachricht \<noteq> []"
  by (simp add: gute_nachricht_def u_def)

lemma wozu_wwaq_konform_schlechte_nachricht:
  "wozu (wwaq_konform beispiel_umgebung schlechte_nachricht) = []"
  by (simp add: wwaq_konform_def beispiel_umgebung_def schlechte_nachricht_def transform_def
      replace_def u_def ersetze_alle.simps)


lemma wozu_grenz_nachricht: "wozu grenz_nachricht \<noteq> []"
  by (simp add: grenz_nachricht_def u_def)

lemma str_lower_beispiel_umgebung: "str_lower beispiel_umgebung = lower_latin1"
  by (simp add: beispiel_umgebung_def)

lemma wwaq_konform_gute_nachricht:
  "wwaq_konform beispiel_umgebung gute_nachricht = gute_nachricht"
  by (simp add: wwaq_konform_def beispiel_umgebung_def gute_nachricht_def transform_def
      replace_def u_def ersetze_alle.simps)

lemma wwaq_konform_grenz_nachricht:
  "wwaq_konform beispiel_umgebung grenz_nachricht = grenz_nachricht"
  by (simp add: wwaq_konform_def beispiel_umgebung_def grenz_nachricht_def transform_def
      replace_def u_def ersetze_alle.simps)

text \<open>The float arithmetic of the score, evaluated on the two messages.\<close>

lemma score_gute_nachricht:
  "berechne_azilut_score lower_latin1 gute_nachricht = 2026619832316723 / 2251799813685248"
  by code_simp

lemma score_grenz_nachricht:
  "berechne_azilut_score lower_latin1 grenz_nachricht = runde (7 / 10)"
  by code_simp

lemma schwelle_unter_score_gute_nachricht:
  "runde (7 / 10) < (2026619832316723 / 2251799813685248 :: rat)"
  by code_simp


section \<open>The validator: results\<close>

text \<open>
  C7. A message whose purpose is the empty string gets, whatever its content and its
  question hierarchy, the verdict: not anchored, score 0, the single missing aspect
  "Kein Wozu definiert!" and the single correction "Definiere klaren Zweck/Absicht".
  There is no other short cut: with a non-empty purpose the result is built from the
  full analysis (score, world detection, missing aspects, corrections).
\<close>

theorem validiere_short_circuit:
  "(wozu n = [] \<longrightarrow>
      validiere_wozu_zentrierung lower erkenne n =
        Inr \<lparr>ist_verankert = False, azilut_score = 0,
             fehlende_wozu_aspekte = [kein_wozu_definiert],
             empfohlene_korrekturen = [definiere_klaren_zweck], weltebene = ASIJA\<rparr>)
   \<and> (wozu n' \<noteq> [] \<longrightarrow>
      validiere_wozu_zentrierung lower erkenne n' =
        (case finde_fehlende_aspekte lower n' of
           Inl e \<Rightarrow> Inl e
         | Inr fehlende \<Rightarrow>
             Inr \<lparr>ist_verankert = (runde (7 / 10) < berechne_azilut_score lower n'),
                  azilut_score = berechne_azilut_score lower n',
                  fehlende_wozu_aspekte = fehlende,
                  empfohlene_korrekturen = generiere_korrekturen fehlende,
                  weltebene = erkenne (inhalt n')\<rparr>))"
  using validiere_ohne_wozu validiere_mit_wozu by blast

theorem validiere_short_circuit_witness:
  "wozu schlechte_nachricht = []
   \<and> validiere_wozu_zentrierung lower_latin1 (konverter_erkenne_weltebene beispiel_umgebung)
       schlechte_nachricht =
        Inr \<lparr>ist_verankert = False, azilut_score = 0,
             fehlende_wozu_aspekte = [kein_wozu_definiert],
             empfohlene_korrekturen = [definiere_klaren_zweck], weltebene = ASIJA\<rparr>
   \<and> wozu gute_nachricht \<noteq> []
   \<and> validiere_wozu_zentrierung lower_latin1 (konverter_erkenne_weltebene beispiel_umgebung)
       gute_nachricht =
        (case finde_fehlende_aspekte lower_latin1 gute_nachricht of
           Inl e \<Rightarrow> Inl e
         | Inr fehlende \<Rightarrow>
             Inr \<lparr>ist_verankert =
                    (runde (7 / 10) < berechne_azilut_score lower_latin1 gute_nachricht),
                  azilut_score = berechne_azilut_score lower_latin1 gute_nachricht,
                  fehlende_wozu_aspekte = fehlende,
                  empfohlene_korrekturen = generiere_korrekturen fehlende,
                  weltebene = konverter_erkenne_weltebene beispiel_umgebung
                                (inhalt gute_nachricht)\<rparr>)"
  using validiere_short_circuit [of schlechte_nachricht lower_latin1
      "konverter_erkenne_weltebene beispiel_umgebung" gute_nachricht]
    wozu_schlechte_nachricht wozu_gute_nachricht
  by blast

text \<open>
  C1. The specification has validation return a verdict, without raising, for every
  message with a non-empty purpose. The code does not: \<open>_finde_fehlende_aspekte\<close> reads
  \<open>nachricht.weltebene\<close>, an attribute the message class does not have, so the call ends
  in \<open>AttributeError\<close>. Here it is evaluated on a message with purpose "um zu lernen".
\<close>

theorem validiere_gute_nachricht_raises:
  "finde_fehlende_aspekte lower_latin1 gute_nachricht = Inl AttributeError
   \<and> validiere_wozu_zentrierung lower_latin1 (konverter_erkenne_weltebene beispiel_umgebung)
       gute_nachricht = Inl AttributeError"
  using validiere_mit_wozu_raises [OF wozu_gute_nachricht]
  by (simp add: finde_fehlende_aspekte_raises)

text \<open>
  C5. The specification has validation return, for a message with a non-empty purpose,
  a verdict whose score is the clamped sum of the four contributions. The code computes
  a score (line 91) and never returns it: for the message below, with one indicator
  phrase, two markers and \<open>WOZU\<close> in the hierarchy, the float additions give
  0.8999999999999999, and the call then ends in \<open>AttributeError\<close> at line 142.
\<close>

theorem azilut_score_discarded:
  "berechne_azilut_score lower_latin1 gute_nachricht = 2026619832316723 / 2251799813685248
   \<and> validiere_wozu_zentrierung lower_latin1 (konverter_erkenne_weltebene beispiel_umgebung)
       gute_nachricht = Inl AttributeError"
  using score_gute_nachricht validiere_mit_wozu_raises [OF wozu_gute_nachricht]
  by simp

text \<open>
  C9, as stated (every verdict's corrections end with the reminder to use canonical
  terminology), fails: the verdict for the message without purpose has the
  single correction "Definiere klaren Zweck/Absicht", which is not the reminder.
\<close>

theorem korrekturen_reminder_counterexample:
  "\<not> isl (validiere_wozu_zentrierung lower_latin1 (konverter_erkenne_weltebene beispiel_umgebung)
            schlechte_nachricht)
   \<and> last (empfohlene_korrekturen
        (projr (validiere_wozu_zentrierung lower_latin1
                  (konverter_erkenne_weltebene beispiel_umgebung) schlechte_nachricht)))
      \<noteq> verwende_wwaq_sprache"
  by (simp add: validiere_ohne_wozu [OF wozu_schlechte_nachricht]
      definiere_klaren_zweck_def verwende_wwaq_sprache_def u_def)

text \<open>
  C9, amended. Whatever the missing aspects, the sequence that \<open>_generiere_korrekturen\<close>
  builds ends with the reminder to use canonical terminology (the function has no score
  among its inputs). With an empty purpose validation returns a verdict whose corrections
  are the single suggestion "Definiere klaren Zweck/Absicht", without the reminder.
\<close>

theorem korrekturen_reminder:
  "last (generiere_korrekturen fehlende) = verwende_wwaq_sprache
   \<and> (wozu n = [] \<longrightarrow>
        map_sum id empfohlene_korrekturen (validiere_wozu_zentrierung lower erkenne n) =
        Inr [definiere_klaren_zweck])"
  by (simp add: generiere_korrekturen_last validiere_ohne_wozu)

theorem korrekturen_reminder_witness:
  "wozu schlechte_nachricht = []
   \<and> map_sum id empfohlene_korrekturen
       (validiere_wozu_zentrierung lower_latin1 (konverter_erkenne_weltebene beispiel_umgebung)
          schlechte_nachricht) = Inr [definiere_klaren_zweck]
   \<and> last (generiere_korrekturen [keine_klaren_zweck_indikatoren]) = verwende_wwaq_sprache"
  using korrekturen_reminder [of "[keine_klaren_zweck_indikatoren]" schlechte_nachricht
      lower_latin1 "konverter_erkenne_weltebene beispiel_umgebung"]
    wozu_schlechte_nachricht
  by blast


section \<open>sende_nachricht: auxiliary facts\<close>

lemma sende_fehler:
  "validiere_wozu_zentrierung (str_lower env) (konverter_erkenne_weltebene env)
     (wwaq_konform env n) = Inl e \<Longrightarrow>
   sende_nachricht env n komm = (Inl e, wwaq_konform env n, komm)"
  by (simp add: sende_nachricht_def Let_def)

lemma sende_abgelehnt:
  assumes "validiere_wozu_zentrierung (str_lower env) (konverter_erkenne_weltebene env)
             (wwaq_konform env n) = Inr v"
    and "\<not> ist_verankert v"
  shows "\<exists>k ks. empfohlene_korrekturen v = k # ks \<and>
     sende_nachricht env n komm =
       (Inr False, (wwaq_konform env n)\<lparr>validierung := Some v\<rparr>,
        komm\<lparr>stdout := stdout komm @
          [[Text ([0x26A0, 0xFE0F] @ u '' WARNUNG: Nachricht nicht Azilut-verankert!'')],
           [Text (u ''   Azilut-Score: ''), Fest2 (azilut_score v)],
           [Text (u ''   Fehlend: ''), Text (join (u '', '') (fehlende_wozu_aspekte v))],
           [Text (u ''   Empfehlung: ''), Text k]]\<rparr>)"
proof -
  from validiere_korrekturen_nonempty [OF assms(1)]
  obtain k ks where k: "empfohlene_korrekturen v = k # ks"
    by (cases "empfohlene_korrekturen v") auto
  show ?thesis
    using assms k by (simp add: sende_nachricht_def Let_def print_def)
qed

lemma sende_angenommen:
  assumes "validiere_wozu_zentrierung (str_lower env) (konverter_erkenne_weltebene env)
             (wwaq_konform env n) = Inr v"
    and "ist_verankert v"
  shows "fst (sende_nachricht env n komm) = Inr True
     \<and> nachrichten_queue (snd (snd (sende_nachricht env n komm))) =
         nachrichten_queue komm @ [fst (snd (sende_nachricht env n komm))]"
  using assms by (simp add: sende_nachricht_def Let_def print_def put_def)

lemma sende_ergebnis:
  assumes "validiere_wozu_zentrierung (str_lower env) (konverter_erkenne_weltebene env)
             (wwaq_konform env n) = Inr v"
  shows "fst (sende_nachricht env n komm) = Inr (ist_verankert v)"
proof (cases "ist_verankert v")
  case True
  with sende_angenommen [OF assms True, of komm] show ?thesis by simp
next
  case False
  from sende_abgelehnt [OF assms False, of komm] False show ?thesis by auto
qed

lemma sende_queue_unveraendert:
  assumes "fst (sende_nachricht env n komm) \<noteq> Inr True"
  shows "nachrichten_queue (snd (snd (sende_nachricht env n komm))) = nachrichten_queue komm"
proof (cases "validiere_wozu_zentrierung (str_lower env) (konverter_erkenne_weltebene env)
             (wwaq_konform env n)")
  case (Inl e)
  from sende_fehler [OF Inl, of komm] show ?thesis by simp
next
  case (Inr v)
  with assms sende_ergebnis [OF Inr, of komm] have nv: "\<not> ist_verankert v" by auto
  from sende_abgelehnt [OF Inr nv, of komm] show ?thesis by auto
qed

lemma sende_kein_IndexError:
  "fst (sende_nachricht env n komm) \<noteq> Inl IndexError"
proof (cases "validiere_wozu_zentrierung (str_lower env) (konverter_erkenne_weltebene env)
             (wwaq_konform env n)")
  case (Inl e)
  have "e = AttributeError"
  proof (cases "wozu (wwaq_konform env n) = []")
    case True
    from validiere_ohne_wozu [OF True] Inl show ?thesis by simp
  next
    case False
    from validiere_mit_wozu_raises [OF False] Inl show ?thesis by simp
  qed
  with sende_fehler [OF Inl, of komm] show ?thesis by simp
next
  case (Inr v)
  from sende_ergebnis [OF Inr, of komm] show ?thesis by simp
qed

lemma validiere_wwaq_konform_schlechte_nachricht:
  "validiere_wozu_zentrierung (str_lower beispiel_umgebung)
     (konverter_erkenne_weltebene beispiel_umgebung)
     (wwaq_konform beispiel_umgebung schlechte_nachricht) =
   Inr \<lparr>ist_verankert = False, azilut_score = 0,
        fehlende_wozu_aspekte = [kein_wozu_definiert],
        empfohlene_korrekturen = [definiere_klaren_zweck], weltebene = ASIJA\<rparr>"
  by (rule validiere_ohne_wozu [OF wozu_wwaq_konform_schlechte_nachricht])

section \<open>sende_nachricht: results\<close>

text \<open>
  C6. The specification has a message that scores more than 0.7 anchored and accepted,
  and one that scores exactly 0.7 not anchored and rejected with a warning. In the code
  neither happens. The first message below scores 0.8999999999999999, the second exactly
  the float 0.7 of the comparison; for both \<open>sende_nachricht\<close> ends in \<open>AttributeError\<close>
  (line 142), with nothing printed and nothing put on the queue.
\<close>

theorem threshold_never_decides:
  "runde (7 / 10) < berechne_azilut_score (str_lower beispiel_umgebung)
                      (wwaq_konform beispiel_umgebung gute_nachricht)
   \<and> sende_nachricht beispiel_umgebung gute_nachricht leerer_kommunikator =
       (Inl AttributeError, gute_nachricht, leerer_kommunikator)
   \<and> berechne_azilut_score (str_lower beispiel_umgebung)
        (wwaq_konform beispiel_umgebung grenz_nachricht) = runde (7 / 10)
   \<and> sende_nachricht beispiel_umgebung grenz_nachricht leerer_kommunikator =
       (Inl AttributeError, grenz_nachricht, leerer_kommunikator)"
proof -
  have gute: "sende_nachricht beispiel_umgebung gute_nachricht leerer_kommunikator =
       (Inl AttributeError, gute_nachricht, leerer_kommunikator)"
    using sende_fehler [of beispiel_umgebung gute_nachricht AttributeError leerer_kommunikator]
      validiere_mit_wozu_raises [OF wozu_gute_nachricht]
    by (simp add: wwaq_konform_gute_nachricht)
  have grenz: "sende_nachricht beispiel_umgebung grenz_nachricht leerer_kommunikator =
       (Inl AttributeError, grenz_nachricht, leerer_kommunikator)"
    using sende_fehler [of beispiel_umgebung grenz_nachricht AttributeError leerer_kommunikator]
      validiere_mit_wozu_raises [OF wozu_grenz_nachricht]
    by (simp add: wwaq_konform_grenz_nachricht)
  show ?thesis
    using gute grenz schwelle_unter_score_gute_nachricht
    by (simp add: wwaq_konform_gute_nachricht wwaq_konform_grenz_nachricht
        str_lower_beispiel_umgebung score_gute_nachricht score_grenz_nachricht)
qed

text \<open>
  C8. When the verdict of the normalised message is not anchored, \<open>sende_nachricht\<close>
  returns \<open>False\<close>, prints the warning with the score, the full list of missing aspects
  and the first correction, and leaves the queue as it was: the message is not delivered.
\<close>

theorem admission_rejects_unanchored:
  assumes "validiere_wozu_zentrierung (str_lower env) (konverter_erkenne_weltebene env)
             (wwaq_konform env n) = Inr v"
    and "\<not> ist_verankert v"
  shows "fst (sende_nachricht env n komm) = Inr False
     \<and> (\<exists>k ks. empfohlene_korrekturen v = k # ks \<and>
          stdout (snd (snd (sende_nachricht env n komm))) = stdout komm @
            [[Text ([0x26A0, 0xFE0F] @ u '' WARNUNG: Nachricht nicht Azilut-verankert!'')],
             [Text (u ''   Azilut-Score: ''), Fest2 (azilut_score v)],
             [Text (u ''   Fehlend: ''), Text (join (u '', '') (fehlende_wozu_aspekte v))],
             [Text (u ''   Empfehlung: ''), Text k]])
     \<and> nachrichten_queue (snd (snd (sende_nachricht env n komm))) = nachrichten_queue komm"
  using sende_abgelehnt [OF assms, of komm] by auto

theorem admission_rejects_unanchored_witness:
  "validiere_wozu_zentrierung (str_lower beispiel_umgebung)
     (konverter_erkenne_weltebene beispiel_umgebung)
     (wwaq_konform beispiel_umgebung schlechte_nachricht) =
   Inr \<lparr>ist_verankert = False, azilut_score = 0,
        fehlende_wozu_aspekte = [kein_wozu_definiert],
        empfohlene_korrekturen = [definiere_klaren_zweck], weltebene = ASIJA\<rparr>
   \<and> fst (sende_nachricht beispiel_umgebung schlechte_nachricht leerer_kommunikator) = Inr False
   \<and> stdout (snd (snd (sende_nachricht beispiel_umgebung schlechte_nachricht
        leerer_kommunikator))) =
       [[Text ([0x26A0, 0xFE0F] @ u '' WARNUNG: Nachricht nicht Azilut-verankert!'')],
        [Text (u ''   Azilut-Score: ''), Fest2 0],
        [Text (u ''   Fehlend: ''), Text kein_wozu_definiert],
        [Text (u ''   Empfehlung: ''), Text definiere_klaren_zweck]]
   \<and> nachrichten_queue (snd (snd (sende_nachricht beispiel_umgebung schlechte_nachricht
        leerer_kommunikator))) = []"
  using admission_rejects_unanchored [OF validiere_wwaq_konform_schlechte_nachricht,
      of leerer_kommunikator]
    validiere_wwaq_konform_schlechte_nachricht
  by (simp add: leerer_kommunikator_def)

text \<open>
  C10. Every verdict that validation returns has at least one correction, so the
  subscript \<open>empfohlene_korrekturen[0]\<close> in \<open>sende_nachricht\<close> never raises \<open>IndexError\<close>.
\<close>

theorem korrekturen_first_exists:
  "(validiere_wozu_zentrierung lower erkenne n = Inr v \<longrightarrow> empfohlene_korrekturen v \<noteq> [])
   \<and> fst (sende_nachricht env n' komm) \<noteq> Inl IndexError"
  using validiere_korrekturen_nonempty [of lower erkenne n v] sende_kein_IndexError [of env n' komm]
  by blast

theorem korrekturen_first_exists_witness:
  "validiere_wozu_zentrierung (str_lower beispiel_umgebung)
     (konverter_erkenne_weltebene beispiel_umgebung)
     (wwaq_konform beispiel_umgebung schlechte_nachricht) =
   Inr \<lparr>ist_verankert = False, azilut_score = 0,
        fehlende_wozu_aspekte = [kein_wozu_definiert],
        empfohlene_korrekturen = [definiere_klaren_zweck], weltebene = ASIJA\<rparr>
   \<and> empfohlene_korrekturen \<lparr>ist_verankert = False, azilut_score = 0,
        fehlende_wozu_aspekte = [kein_wozu_definiert],
        empfohlene_korrekturen = [definiere_klaren_zweck], weltebene = ASIJA\<rparr> \<noteq> []
   \<and> fst (sende_nachricht beispiel_umgebung schlechte_nachricht leerer_kommunikator)
        \<noteq> Inl IndexError"
  using korrekturen_first_exists [of "str_lower beispiel_umgebung"
      "konverter_erkenne_weltebene beispiel_umgebung"
      "wwaq_konform beispiel_umgebung schlechte_nachricht"
      "\<lparr>ist_verankert = False, azilut_score = 0,
        fehlende_wozu_aspekte = [kein_wozu_definiert],
        empfohlene_korrekturen = [definiere_klaren_zweck], weltebene = ASIJA\<rparr>"
      beispiel_umgebung schlechte_nachricht leerer_kommunikator]
    validiere_wwaq_konform_schlechte_nachricht
  by simp


section \<open>The shared queue\<close>

lemma empfange_naechste_None:
  "empfange_naechste m q = (None, r) \<Longrightarrow>
     filter (\<lambda>n. empfaenger_modul n = m) q = [] \<and> r = []"
  by (induction q) (auto split: if_splits)

lemma empfange_naechste_Some:
  "empfange_naechste m q = (Some n, r) \<Longrightarrow>
     filter (\<lambda>n. empfaenger_modul n = m) q = n # filter (\<lambda>n. empfaenger_modul n = m) r"
  by (induction q) (auto split: if_splits)

lemma empfange_nachrichten_filter:
  "empfange_nachrichten m q = (filter (\<lambda>n. empfaenger_modul n = m) q, [])"
proof (induction m q rule: empfange_nachrichten.induct)
  case (1 m q)
  show ?case
  proof (cases "empfange_naechste m q")
    case (Pair x r)
    show ?thesis
    proof (cases x)
      case None
      with Pair empfange_naechste_None [of m q r] show ?thesis
        by (simp add: empfange_nachrichten.simps [of m q])
    next
      case (Some n)
      with Pair have eq: "empfange_naechste m q = (Some n, r)"
        by simp
      from "1.IH" [OF eq [symmetric] refl] Some
      have "empfange_nachrichten m r = (filter (\<lambda>n. empfaenger_modul n = m) r, [])"
        by simp
      with eq empfange_naechste_Some [OF eq] show ?thesis
        by (simp add: empfange_nachrichten.simps [of m q])
    qed
  qed
qed

text \<open>
  C2, as stated (draining B first loses no message for A), fails. One message for module A and then one for module B
  are put on the queue. The consumer of B receives the message for B; in doing so it has
  taken the message for A off the shared queue and dropped it, so the consumer of A that
  runs next receives nothing.
\<close>

theorem routing_isolation_counterexample:
  "fst (empfange_nachrichten (u ''modul-b'')
          (nachrichten_queue (put nachricht_an_b (put nachricht_an_a leerer_kommunikator))))
     = [nachricht_an_b]
   \<and> fst (empfange_nachrichten (u ''modul-a'')
          (snd (empfange_nachrichten (u ''modul-b'')
                  (nachrichten_queue (put nachricht_an_b (put nachricht_an_a leerer_kommunikator))))))
     = []
   \<and> empfaenger_modul nachricht_an_a = u ''modul-a''"
  by (simp add: empfange_nachrichten_filter put_def leerer_kommunikator_def
      nachricht_an_a_def nachricht_an_b_def u_def)

text \<open>
  C2, amended. A consumer that iterates \<open>empfange_nachrichten\<close> until it suspends
  receives exactly the queued messages addressed to its module, in arrival order, and
  none addressed to another module. It leaves the shared queue empty: the messages for
  other modules are dropped, and a consumer of another module that runs afterwards
  receives none of them.
\<close>

theorem shared_queue_drain:
  "fst (empfange_nachrichten modul_name queue) =
     filter (\<lambda>n. empfaenger_modul n = modul_name) queue
   \<and> snd (empfange_nachrichten modul_name queue) = []
   \<and> fst (empfange_nachrichten anderes_modul (snd (empfange_nachrichten modul_name queue))) = []"
  by (simp add: empfange_nachrichten_filter)


section \<open>The report\<close>

lemma bericht_nichtleer:
  "nachrichten \<noteq> [] \<Longrightarrow> \<exists>bericht. generiere_wozu_bericht jetzt nachrichten = Inr bericht"
  by (simp add: generiere_wozu_bericht_def Let_def)

text \<open>
  C4. The specification has the report of an empty sequence of messages be a defined
  result, with no division by zero. The code divides the sum of the scores by \<open>len(nachrichten)\<close> without a guard (line
  263), so the empty sequence ends in \<open>ZeroDivisionError\<close>.
\<close>

theorem bericht_leer_raises:
  "generiere_wozu_bericht (u ''2025-07-06T12:00:00'') [] = Inl ZeroDivisionError"
  by (simp add: generiere_wozu_bericht_def)


section \<open>The parser\<close>

lemma finditer_ab_passt:
  "(s, e) \<in> set (finditer_ab w m t i) \<Longrightarrow> i \<le> s \<and> e = s + length m \<and> passt w m t s"
proof (induction w m t i rule: finditer_ab.induct)
  case (1 w wort t i)
  show ?case
  proof (cases "length t < i + length wort")
    case True
    with "1.prems" show ?thesis by (simp add: finditer_ab.simps [of w wort t i])
  next
    case False
    note lang = this
    show ?thesis
    proof (cases "passt w wort t i")
      case True
      with lang "1.prems" have "(s, e) = (i, i + length wort)
          \<or> (s, e) \<in> set (finditer_ab w wort t (i + max 1 (length wort)))"
        by (simp add: finditer_ab.simps [of w wort t i])
      then show ?thesis
      proof
        assume "(s, e) = (i, i + length wort)"
        with True show ?thesis by simp
      next
        assume "(s, e) \<in> set (finditer_ab w wort t (i + max 1 (length wort)))"
        from "1.IH"(1) [OF lang True this] show ?thesis by simp
      qed
    next
      case False
      with lang "1.prems" have "(s, e) \<in> set (finditer_ab w wort t (Suc i))"
        by (simp add: finditer_ab.simps [of w wort t i])
      from "1.IH"(2) [OF lang False this] show ?thesis by simp
    qed
  qed
qed

lemma passt_hd: "passt w m t s \<Longrightarrow> m \<noteq> [] \<Longrightarrow> hd m \<in> set t"
proof -
  assume p: "passt w m t s" and ne: "m \<noteq> []"
  then have eq: "take (length m) (drop s t) = m"
    by (simp add: passt_def scheibe_def)
  with ne have "drop s t \<noteq> []" by auto
  with eq ne have "hd m = hd (drop s t)"
    by (metis hd_take length_greater_0_conv)
  moreover from \<open>drop s t \<noteq> []\<close> have "hd (drop s t) \<in> set (drop s t)" by simp
  ultimately show ?thesis by (metis in_set_dropD)
qed

lemma finditer_leer: "m \<noteq> [] \<Longrightarrow> hd m \<notin> set t \<Longrightarrow> finditer w m t = []"
proof (rule ccontr)
  assume ne: "m \<noteq> []" and nin: "hd m \<notin> set t" and "finditer w m t \<noteq> []"
  then obtain s e where "(s, e) \<in> set (finditer_ab w m t 0)"
    unfolding finditer_def by (cases "finditer_ab w m t 0") auto
  from finditer_ab_passt [OF this] passt_hd ne nin show False by blast
qed

lemma finditer_suche: "hd m \<in> set t \<Longrightarrow> finditer w m t = finditer_ab w m t 0"
  by (simp add: finditer_def)


lemma zwischentext_append:
  "zwischentext w (xs @ ys) t = zwischentext w ys (zwischentext w xs t)"
  by (induction xs arbitrary: t) auto

lemma re_sub_keine: "finditer w m t = [] \<Longrightarrow> re_sub w m e t = t"
  by (simp add: re_sub_def)

lemma finditer_treffer:
  assumes "(s, e) \<in> set (finditer w m t)"
  shows "e = s + length m \<and> scheibe t s e = m"
  using finditer_ab_passt [of s e w m t 0] assms
  by (simp add: finditer_def passt_def)

lemma regeln_schleife_inv:
  assumes "\<forall>r\<in>set a. belegt w alle text r"
    and "alle = vor @ map (\<lambda>(m, e). (kat, m, e)) regeln @ rest"
  shows "fst (regeln_schleife w kat regeln (zwischentext w vor text, a)) =
           zwischentext w (vor @ map (\<lambda>(m, e). (kat, m, e)) regeln) text
       \<and> (\<forall>r\<in>set (snd (regeln_schleife w kat regeln (zwischentext w vor text, a))).
            belegt w alle text r)"
  using assms
proof (induction regeln arbitrary: vor a)
  case Nil
  then show ?case by simp
next
  case (Cons regel regeln)
  obtain m e where regel: "regel = (m, e)" by (cases regel)
  let ?t = "zwischentext w vor text"
  let ?t' = "re_sub w m e ?t"
  let ?vor' = "vor @ [(kat, m, e)]"
  have t': "zwischentext w ?vor' text = ?t'"
    by (simp add: zwischentext_append)
  have alle: "alle = ?vor' @ map (\<lambda>(m, e). (kat, m, e)) regeln @ rest"
    using Cons.prems(2) regel by simp
  show ?case
  proof (cases "finditer w m ?t = []")
    case True
    then have same: "?t' = ?t" by (rule re_sub_keine)
    from Cons.IH [OF Cons.prems(1) alle] True regel t' same
    show ?thesis by simp
  next
    case False
    let ?neu = "map (\<lambda>(s, e'). \<lparr>kategorie = kat, original = scheibe ?t s e',
                              ersatz = e, position = s,
                              kontext = scheibe ?t' (s - 20) (e' + 20)\<rparr>) (finditer w m ?t)"
    have neu: "\<forall>r\<in>set ?neu. belegt w alle text r"
    proof
      fix r assume "r \<in> set ?neu"
      then obtain s e' where se: "(s, e') \<in> set (finditer w m ?t)"
        and r: "r = \<lparr>kategorie = kat, original = scheibe ?t s e',
                              ersatz = e, position = s,
                              kontext = scheibe ?t' (s - 20) (e' + 20)\<rparr>"
        by auto
      from finditer_treffer [OF se] have e': "e' = s + length m" and sch: "scheibe ?t s e' = m"
        by auto
      have "alle = vor @ (kategorie r, original r, ersatz r) # (map (\<lambda>(m, e). (kat, m, e)) regeln @ rest)"
        using Cons.prems(2) regel r sch by simp
      moreover have "(position r, position r + length (original r)) \<in> set (finditer w (original r) ?t)"
        using se r sch e' by simp
      moreover have "scheibe ?t (position r) (position r + length (original r)) = original r"
        using r sch e' by simp
      moreover have "kontext r = scheibe (re_sub w (original r) (ersatz r) ?t)
              (position r - 20) (position r + length (original r) + 20)"
        using r sch e' by simp
      ultimately show "belegt w alle text r"
        unfolding belegt_def by blast
    qed
    with Cons.prems(1) have "\<forall>r\<in>set (a @ ?neu). belegt w alle text r"
      by auto
    from Cons.IH [OF this alle] False regel t'
    show ?thesis by (simp add: Let_def)
  qed
qed

lemma kategorien_schleife_inv:
  assumes "\<forall>r\<in>set a. belegt w alle text r"
    and "alle = vor @ flach kategorien"
  shows "\<forall>r\<in>set (snd (kategorien_schleife w kategorien (zwischentext w vor text, a))).
            belegt w alle text r"
  using assms
proof (induction kategorien arbitrary: vor a)
  case Nil
  then show ?case by simp
next
  case (Cons k kategorien)
  obtain kat regeln where k: "k = (kat, regeln)" by (cases k)
  let ?vor' = "vor @ map (\<lambda>(m, e). (kat, m, e)) regeln"
  have alle1: "alle = vor @ map (\<lambda>(m, e). (kat, m, e)) regeln @ flach kategorien"
    using Cons.prems(2) k by (simp add: flach_def)
  from regeln_schleife_inv [OF Cons.prems(1) alle1]
  have t: "fst (regeln_schleife w kat regeln (zwischentext w vor text, a)) = zwischentext w ?vor' text"
    and a: "\<forall>r\<in>set (snd (regeln_schleife w kat regeln (zwischentext w vor text, a))).
            belegt w alle text r"
    by simp_all
  have alle2: "alle = ?vor' @ flach kategorien"
    using alle1 by simp
  from Cons.IH [OF a alle2] t k
  show ?case
    by (metis kategorien_schleife.simps(2) prod.collapse)
qed

lemma transformiere_belegt:
  assumes "r \<in> set (snd (fst (transformiere w statistik text)))"
  shows "belegt w (flach transformationen) text r"
proof (cases "text = []")
  case True
  with assms show ?thesis by (simp add: transformiere_def)
next
  case False
  with assms have "r \<in> set (snd (kategorien_schleife w transformationen (text, [])))"
    by (simp add: transformiere_def split: prod.splits)
  moreover have "\<forall>r\<in>set (snd (kategorien_schleife w transformationen (zwischentext w [] text, []))).
            belegt w (flach transformationen) text r"
    by (rule kategorien_schleife_inv) simp_all
  ultimately show ?thesis by simp
qed

lemma beispiel_transformiert:
  "transformiere wortzeichen_latin1 neue_statistik beispiel_text =
     ((u ''Qabbala und Qabbala sind in der Lehre ein Begriff'',
       [\<lparr>kategorie = k_zu_q, original = u ''Kabbalah'', ersatz = u ''Qabbala'', position = 0,
         kontext = u ''Qabbala und Qabbala sind in ''\<rparr>,
        \<lparr>kategorie = k_zu_q, original = u ''Kabbalah'', ersatz = u ''Qabbala'', position = 13,
         kontext = u ''Qabbala und Qabbala sind in der Lehre ein''\<rparr>]),
      \<lparr>anzahl_transformationen = 1, anzahl_begriffe = 2\<rparr>)"
  by (simp add: transformiere_def transformationen_def regeln_k_zu_q_def
      regeln_zer_elimination_def regeln_din_31636_def beispiel_text_def u_def
      finditer_leer finditer_suche finditer_ab.simps passt_def wortgrenze_def scheibe_def
      wortzeichen_latin1_def re_sub_def neue_statistik_def Let_def)

text \<open>
  C3, as stated (position and context refer to the returned text), fails. The text has
  "Kabbalah" at offsets 0 and 13; the rule replaces both by the shorter "Qabbala". In
  the text the caller receives the second replacement is at offset 12, but the record
  says 13, where no "Qabbala" starts. The recorded context of the second change ends two
  characters later than the window of 20 characters on each side of the replacement in
  the returned text.
\<close>

theorem aenderung_position_counterexample:
  "fst (fst (transformiere wortzeichen_latin1 neue_statistik beispiel_text)) =
     u ''Qabbala und Qabbala sind in der Lehre ein Begriff''
   \<and> map position (snd (fst (transformiere wortzeichen_latin1 neue_statistik beispiel_text)))
       = [0, 13]
   \<and> scheibe (u ''Qabbala und Qabbala sind in der Lehre ein Begriff'') 12 19 = u ''Qabbala''
   \<and> scheibe (u ''Qabbala und Qabbala sind in der Lehre ein Begriff'') 13 20 \<noteq> u ''Qabbala''
   \<and> map kontext (snd (fst (transformiere wortzeichen_latin1 neue_statistik beispiel_text)))
       = [u ''Qabbala und Qabbala sind in '', u ''Qabbala und Qabbala sind in der Lehre ein'']
   \<and> scheibe (u ''Qabbala und Qabbala sind in der Lehre ein Begriff'') (12 - 20) (19 + 20)
       = u ''Qabbala und Qabbala sind in der Lehre e''"
  by (simp add: beispiel_transformiert scheibe_def u_def)

text \<open>
  C3, amended. Every recorded change belongs to one rule of the table: \<open>original\<close> is
  that rule's word, \<open>position\<close> is the start of a match of the rule in the text as it
  was when the rule was reached (all earlier rules applied, this one not yet), and
  \<open>kontext\<close> is the slice from \<open>max(0, position - 20)\<close> to the match's end plus 20,
  clamped, of the text right after this rule's substitution.
\<close>

theorem aenderung_position:
  assumes "r \<in> set (snd (fst (transformiere w statistik text)))"
  shows "\<exists>vor nach.
           flach transformationen = vor @ (kategorie r, original r, ersatz r) # nach
         \<and> (position r, position r + length (original r))
              \<in> set (finditer w (original r) (zwischentext w vor text))
         \<and> scheibe (zwischentext w vor text) (position r) (position r + length (original r))
              = original r
         \<and> kontext r =
             scheibe (re_sub w (original r) (ersatz r) (zwischentext w vor text))
               (position r - 20) (position r + length (original r) + 20)"
  using transformiere_belegt [OF assms] unfolding belegt_def .

theorem aenderung_position_witness:
  "\<lparr>kategorie = k_zu_q, original = u ''Kabbalah'', ersatz = u ''Qabbala'', position = 13,
     kontext = u ''Qabbala und Qabbala sind in der Lehre ein''\<rparr>
     \<in> set (snd (fst (transformiere wortzeichen_latin1 neue_statistik beispiel_text)))
   \<and> (\<exists>vor nach.
           flach transformationen = vor @ (k_zu_q, u ''Kabbalah'', u ''Qabbala'') # nach
         \<and> (13, 13 + length (u ''Kabbalah''))
              \<in> set (finditer wortzeichen_latin1 (u ''Kabbalah'')
                        (zwischentext wortzeichen_latin1 vor beispiel_text))
         \<and> scheibe (zwischentext wortzeichen_latin1 vor beispiel_text) 13
              (13 + length (u ''Kabbalah'')) = u ''Kabbalah''
         \<and> u ''Qabbala und Qabbala sind in der Lehre ein'' =
             scheibe (re_sub wortzeichen_latin1 (u ''Kabbalah'') (u ''Qabbala'')
                        (zwischentext wortzeichen_latin1 vor beispiel_text))
               (13 - 20) (13 + length (u ''Kabbalah'') + 20))"
proof -
  have mem: "\<lparr>kategorie = k_zu_q, original = u ''Kabbalah'', ersatz = u ''Qabbala'',
      position = 13, kontext = u ''Qabbala und Qabbala sind in der Lehre ein''\<rparr>
     \<in> set (snd (fst (transformiere wortzeichen_latin1 neue_statistik beispiel_text)))"
    by (simp add: beispiel_transformiert)
  from aenderung_position [OF mem] mem show ?thesis
    by simp
qed

end
